theory Spec2Isabelle
  imports Complex_Main
begin

section \<open>JavaScript values\<close>

text \<open>
  The values that reach the front end are what \<^verbatim>\<open>axios\<close> hands over as
  \<^verbatim>\<open>response.data\<close>: a parsed JSON document, or \<^verbatim>\<open>undefined\<close> where a
  property is read that an object does not have. Numbers are IEEE doubles; the finite ones
  are kept by their numeric value (both zeros are \<open>Fin 0\<close>: the program only tests them
  for truthiness and compares them with \<open>0\<close>, where they agree).
\<close>

datatype number = NaN | PosInf | NegInf | Fin real

datatype jsval =
    Undefined
  | Null
  | Bool bool
  | Num number
  | Str string
  | Arr "jsval list"
  | Obj "(string \<times> jsval) list"

text \<open>ToBoolean: the falsy values are undefined, null, false, 0, NaN and the empty string.\<close>

fun truthy :: "jsval \<Rightarrow> bool" where
  "truthy Undefined = False"
| "truthy Null = False"
| "truthy (Bool b) = b"
| "truthy (Num NaN) = False"
| "truthy (Num (Fin x)) = (x \<noteq> 0)"
| "truthy (Num PosInf) = True"
| "truthy (Num NegInf) = True"
| "truthy (Str s) = (s \<noteq> [])"
| "truthy (Arr xs) = True"
| "truthy (Obj kvs) = True"


text \<open>
  \<^verbatim>\<open>o.k\<close> on a plain object: the own property, or undefined. (The objects here come from
  JSON, and \<^verbatim>\<open>Object.prototype\<close> has none of the names the program reads.)
\<close>

definition obj_get :: "(string \<times> jsval) list \<Rightarrow> string \<Rightarrow> jsval" where
  "obj_get kvs k = (case map_of kvs k of None \<Rightarrow> Undefined | Some v \<Rightarrow> v)"




section \<open>The analysis client (services/api.js)\<close>

record jsfile =
  file_name :: string
  file_bytes :: "nat list"

datatype form_value = FileField jsfile | TextField string

record http_request =
  http_method :: string
  url :: string
  form :: "(string \<times> form_value) list"
  headers :: "(string \<times> string) list"

record response =
  status :: nat
  data :: jsval

text \<open>
  What \<^verbatim>\<open>axios.post\<close> rejects with: an error without a response (the request never
  got an answer) or one carrying the response whose status its default
  \<^verbatim>\<open>validateStatus\<close> refused.
\<close>

datatype axios_error = Transport string | HttpStatus nat jsval

text \<open>
  Effects outside the React state: the requests handed to axios, the console and the
  alert dialogs, each in order of occurrence.
\<close>

record effects =
  posts :: "http_request list"
  console :: "(string \<times> axios_error) list"
  alerts :: "string list"

text \<open>\<^verbatim>\<open>const API_BASE_URL = process.env.REACT_APP_API_URL || ""\<close>, evaluated when the
  module is loaded; \<open>env\<close> is the variable (\<open>None\<close> when it is not set).\<close>

definition API_BASE_URL :: "string option \<Rightarrow> string" where
  "API_BASE_URL env = (case env of None \<Rightarrow> [] | Some s \<Rightarrow> (if s \<noteq> [] then s else []))"

text \<open>Lines 6 to 15: the default parameters, the form, and the call of \<^verbatim>\<open>axios.post\<close>.
  An omitted (undefined) argument is \<open>None\<close>.\<close>

definition analysis_request ::
  "string option \<Rightarrow> jsfile \<Rightarrow> string option \<Rightarrow> string option \<Rightarrow> http_request" where
  "analysis_request env file businessType language =
     (let businessType' = (case businessType of None \<Rightarrow> ''Retail'' | Some b \<Rightarrow> b);
          language' = (case language of None \<Rightarrow> ''en'' | Some l \<Rightarrow> l);
          formData = [(''file'', FileField file),
                      (''business_type'', TextField businessType'),
                      (''language'', TextField language')]
      in \<lparr>http_method = ''POST'',
          url = API_BASE_URL env @ ''/analysis/run'',
          form = formData,
          headers = [(''Content-Type'', ''multipart/form-data'')]\<rparr>)"

definition uploadAndAnalyze_send ::
  "string option \<Rightarrow> jsfile \<Rightarrow> string option \<Rightarrow> string option \<Rightarrow> effects
     \<Rightarrow> http_request \<times> effects" where
  "uploadAndAnalyze_send env file businessType language fx =
     (let req = analysis_request env file businessType language
      in (req, fx\<lparr>posts := posts fx @ [req]\<rparr>))"

text \<open>Lines 16 to 19, once the promise of \<^verbatim>\<open>axios.post\<close> has settled: the body is
  returned as it is; an error is logged and thrown again.\<close>

definition uploadAndAnalyze_settle ::
  "axios_error + response \<Rightarrow> effects \<Rightarrow> (axios_error + jsval) \<times> effects" where
  "uploadAndAnalyze_settle outcome fx =
     (case outcome of
        Inr resp \<Rightarrow> (Inr (data resp), fx)
      | Inl error \<Rightarrow> (Inl error, fx\<lparr>console := console fx @ [(''API Error:'', error)]\<rparr>))"

text \<open>The whole call, against a network \<open>net\<close> that settles each request.\<close>

definition uploadAndAnalyze ::
  "string option \<Rightarrow> (http_request \<Rightarrow> axios_error + response) \<Rightarrow> jsfile \<Rightarrow> string option
     \<Rightarrow> string option \<Rightarrow> effects \<Rightarrow> (axios_error + jsval) \<times> effects" where
  "uploadAndAnalyze env net file businessType language fx =
     (let (req, fx1) = uploadAndAnalyze_send env file businessType language fx
      in uploadAndAnalyze_settle (net req) fx1)"

section \<open>The metric cards (MetricsGrid)\<close>





section \<open>The upload workflow (App.jsx, FileUploader.jsx)\<close>

text \<open>The state cells of one mounted \<^verbatim>\<open>FileUploader\<close>; \<open>u_id\<close> tells one
  mounted instance from the next.\<close>

record uploader =
  u_id :: nat
  u_loading :: bool
  u_file :: "jsfile option"

text \<open>
  The state cells of \<^verbatim>\<open>App\<close>, the uploader it has mounted (if any), the calls of
  \<^verbatim>\<open>handleUpload\<close> suspended at their \<^verbatim>\<open>await\<close> (with the instance
  that made each), and the effects so far. \<open>crashed\<close> is set once a render of
  \<^verbatim>\<open>App\<close> has thrown: there is no error boundary, so React removes the whole tree
  and the page stays blank.
\<close>

record system =
  result :: jsval
  loading :: bool
  lang :: string
  mounted :: "uploader option"
  next_id :: nat
  pending :: "(nat \<times> http_request) list"
  crashed :: bool
  fx :: effects

text \<open>
  Reading a property, \<^verbatim>\<open>v.k\<close>: a TypeError (\<open>None\<close>) on undefined and null, the own
  property on an object, and undefined on a string, number, boolean or array (whose
  prototypes have none of the names the program reads).
\<close>

definition js_member :: "jsval \<Rightarrow> string \<Rightarrow> jsval option" where
  "js_member v k =
     (case v of
        Undefined \<Rightarrow> None
      | Null \<Rightarrow> None
      | Obj kvs \<Rightarrow> Some (obj_get kvs k)
      | _ \<Rightarrow> Some Undefined)"

text \<open>The props that the result view computes from the result (App lines 75, 78, 85 and
  94), in the order of the source; \<open>None\<close> when one of the reads throws.\<close>

record view_props =
  p_score :: jsval
  p_grade :: jsval
  p_metrics :: jsval
  p_data :: jsval
  p_ai_report :: jsval

definition result_view_props :: "jsval \<Rightarrow> view_props option" where
  "result_view_props r =
     Option.bind (js_member r ''credit_readiness'') (\<lambda>cr.
     Option.bind (js_member cr ''score'') (\<lambda>sc.
     Option.bind (js_member cr ''grade'') (\<lambda>gr.
     Option.bind (js_member r ''financial_summary'') (\<lambda>fs.
     Option.bind (js_member fs ''metrics'') (\<lambda>m.
     Option.bind (js_member r ''projections'') (\<lambda>d.
     Option.bind (js_member r ''ai_report'') (\<lambda>a.
       Some \<lparr>p_score = sc, p_grade = gr, p_metrics = m, p_data = d, p_ai_report = a\<rparr>)))))))"

text \<open>
  Whether the result view renders without throwing: the reads of \<^verbatim>\<open>App\<close> succeed,
  \<^verbatim>\<open>MetricsGrid\<close> can read \<^verbatim>\<open>metrics.total_revenue\<close> (part_000 line 22), and
  the libraries accept what they are given. The last part is the parameter \<open>widgets\<close>:
  whether React and recharts render the elements built from this result (the gauge, the
  cards, the chart, the report text) without throwing.
\<close>

definition result_view_renders :: "(jsval \<Rightarrow> bool) \<Rightarrow> jsval \<Rightarrow> bool" where
  "result_view_renders widgets r =
     (case result_view_props r of
        None \<Rightarrow> False
      | Some p \<Rightarrow> js_member (p_metrics p) ''total_revenue'' \<noteq> None \<and> widgets r)"

text \<open>An uploader that enters the tree starts from \<^verbatim>\<open>useState(false)\<close> and
  \<^verbatim>\<open>useState(null)\<close>; one that is in the tree keeps its state.\<close>

definition mount_uploader :: "system \<Rightarrow> system" where
  "mount_uploader s =
     (case mounted s of
        Some u \<Rightarrow> s
      | None \<Rightarrow> s\<lparr>mounted := Some \<lparr>u_id = next_id s, u_loading = False, u_file = None\<rparr>,
                   next_id := Suc (next_id s)\<rparr>)"

text \<open>
  Rendering \<^verbatim>\<open>App\<close> (line 58). With \<^verbatim>\<open>!result\<close> the upload view and its
  uploader are in the tree. Otherwise the result view is rendered and the uploader leaves
  the tree, losing its state; if that render throws, the whole tree is removed. Nothing
  renders on a page that has crashed. The render runs after the handler that set the
  state has run to its end, so what it throws does not reach that handler.
\<close>

definition render_App :: "(jsval \<Rightarrow> bool) \<Rightarrow> system \<Rightarrow> system" where
  "render_App widgets s =
     (if crashed s then s
      else if truthy (result s) then
        (if result_view_renders widgets (result s) then s\<lparr>mounted := None\<rparr>
         else s\<lparr>mounted := None, crashed := True\<rparr>)
      else mount_uploader s)"

text \<open>The first render: \<^verbatim>\<open>result\<close> is null, so the page is the upload view.\<close>

definition initial :: system where
  "initial = mount_uploader
     \<lparr>result = Null, loading = False, lang = ''en'', mounted = None, next_id = 0,
      pending = [], crashed = False, fx = \<lparr>posts = [], console = [], alerts = []\<rparr>\<rparr>"

text \<open>What the page shows: the Analyze button (FileUploader line 35), the spinner
  (line 44), the New Scan button (App line 52) and the result view (line 70); the last
  two only on a page whose render of the result view did not throw.\<close>

definition selected_file :: "system \<Rightarrow> jsfile option" where
  "selected_file s = (case mounted s of None \<Rightarrow> None | Some u \<Rightarrow> u_file u)"

definition analyze_button_shown :: "system \<Rightarrow> bool" where
  "analyze_button_shown s =
     (case mounted s of None \<Rightarrow> False | Some u \<Rightarrow> u_file u \<noteq> None \<and> \<not> u_loading u)"

definition spinner_shown :: "system \<Rightarrow> bool" where
  "spinner_shown s = (case mounted s of None \<Rightarrow> False | Some u \<Rightarrow> u_loading u)"

definition result_view_selected :: "system \<Rightarrow> bool" where
  "result_view_selected s = (truthy (result s) \<and> \<not> crashed s)"

definition new_scan_shown :: "system \<Rightarrow> bool" where
  "new_scan_shown s = (truthy (result s) \<and> \<not> crashed s)"

text \<open>The state setters of \<^verbatim>\<open>App\<close>. React drops the updates of a tree it has
  removed.\<close>

definition setResult :: "jsval \<Rightarrow> system \<Rightarrow> system" where
  "setResult d s = (if crashed s then s else s\<lparr>result := d\<rparr>)"

definition setLoading :: "bool \<Rightarrow> system \<Rightarrow> system" where
  "setLoading b s = (if crashed s then s else s\<lparr>loading := b\<rparr>)"

definition setLang :: "string \<Rightarrow> system \<Rightarrow> system" where
  "setLang l s = (if crashed s then s else s\<lparr>lang := l\<rparr>)"

text \<open>\<^verbatim>\<open>handleFileChange\<close>: \<^verbatim>\<open>e.target.files[0]\<close> is a file, or undefined
  when the selection was emptied.\<close>

definition handleFileChange :: "jsfile option \<Rightarrow> system \<Rightarrow> system" where
  "handleFileChange chosen s =
     (case mounted s of
        None \<Rightarrow> s
      | Some u \<Rightarrow> s\<lparr>mounted := Some (u\<lparr>u_file := chosen\<rparr>)\<rparr>)"

text \<open>\<^verbatim>\<open>handleAnalysis\<close> up to its \<^verbatim>\<open>await\<close> (App lines 14 to 17).\<close>

definition handleAnalysis_begin :: "string option \<Rightarrow> jsfile \<Rightarrow> system \<Rightarrow> http_request \<times> system" where
  "handleAnalysis_begin env file s =
     (let s1 = setLoading True s;
          (req, fx1) = uploadAndAnalyze_send env file (Some ''Retail'') (Some (lang s1)) (fx s1)
      in (req, s1\<lparr>fx := fx1\<rparr>))"

text \<open>\<^verbatim>\<open>handleAnalysis\<close> from its \<^verbatim>\<open>await\<close> on (lines 17 to 23), and the
  render of the state it has set. The catch clause takes every error, so the promise it
  returns is always fulfilled.\<close>

definition handleAnalysis_settle ::
  "(jsval \<Rightarrow> bool) \<Rightarrow> axios_error + response \<Rightarrow> system \<Rightarrow> (axios_error + unit) \<times> system" where
  "handleAnalysis_settle widgets outcome s =
     (let (r, fx1) = uploadAndAnalyze_settle outcome (fx s);
          s1 = s\<lparr>fx := fx1\<rparr>;
          s2 = (case r of
                  Inr d \<Rightarrow> setResult d s1
                | Inl err \<Rightarrow>
                    s1\<lparr>fx := (fx s1)\<lparr>alerts := alerts (fx s1) @
                                  [''Error connecting to backend. See console.'']\<rparr>\<rparr>);
          s3 = setLoading False s2
      in (Inr (), render_App widgets s3))"

text \<open>\<^verbatim>\<open>handleUpload\<close> up to its \<^verbatim>\<open>await\<close> (FileUploader lines 10 to 15).\<close>

definition handleUpload_begin :: "string option \<Rightarrow> system \<Rightarrow> system" where
  "handleUpload_begin env s =
     (case mounted s of
        None \<Rightarrow> s
      | Some u \<Rightarrow>
          (case u_file u of
             None \<Rightarrow> s
           | Some file \<Rightarrow>
               (let s1 = s\<lparr>mounted := Some (u\<lparr>u_loading := True\<rparr>)\<rparr>;
                    (req, s2) = handleAnalysis_begin env file s1
                in s2\<lparr>pending := pending s2 @ [(u_id u, req)]\<rparr>)))"

text \<open>\<^verbatim>\<open>setLoading\<close> of the uploader instance \<open>uid\<close>: nothing happens once that
  instance has left the tree.\<close>

definition uploader_setLoading :: "nat \<Rightarrow> bool \<Rightarrow> system \<Rightarrow> system" where
  "uploader_setLoading uid b s =
     (case mounted s of
        None \<Rightarrow> s
      | Some u \<Rightarrow> (if u_id u = uid then s\<lparr>mounted := Some (u\<lparr>u_loading := b\<rparr>)\<rparr> else s))"

text \<open>\<^verbatim>\<open>handleUpload\<close> from its \<^verbatim>\<open>await\<close> on (lines 15 to 20), given how the
  promise of \<^verbatim>\<open>onUploadSuccess\<close> settled.\<close>

definition handleUpload_settle :: "nat \<Rightarrow> axios_error + unit \<Rightarrow> system \<Rightarrow> system" where
  "handleUpload_settle uid r s =
     (let s1 = (case r of
                  Inr d \<Rightarrow> s
                | Inl err \<Rightarrow> s\<lparr>fx := (fx s)\<lparr>alerts := alerts (fx s) @
                                         [''Upload failed. Check console.'']\<rparr>\<rparr>)
      in uploader_setLoading uid False s1)"

text \<open>The \<open>i\<close>-th request in flight settles with \<open>outcome\<close>, and the two suspended
  handlers run to their end.\<close>

definition settle ::
  "(jsval \<Rightarrow> bool) \<Rightarrow> nat \<Rightarrow> axios_error + response \<Rightarrow> system \<Rightarrow> system" where
  "settle widgets i outcome s =
     (if i < length (pending s) then
        (let (uid, req) = pending s ! i;
             s1 = s\<lparr>pending := take i (pending s) @ drop (Suc i) (pending s)\<rparr>;
             (r, s2) = handleAnalysis_settle widgets outcome s1
         in handleUpload_settle uid r s2)
      else s)"

text \<open>A click reaches a handler only through a button that the current render shows.\<close>

definition click_analyze :: "string option \<Rightarrow> system \<Rightarrow> system" where
  "click_analyze env s = (if analyze_button_shown s then handleUpload_begin env s else s)"

text \<open>The handler of New Scan (App line 52): \<^verbatim>\<open>setResult(null)\<close>, then the render.\<close>

definition newScan :: "(jsval \<Rightarrow> bool) \<Rightarrow> system \<Rightarrow> system" where
  "newScan widgets s = render_App widgets (setResult Null s)"

definition click_new_scan :: "(jsval \<Rightarrow> bool) \<Rightarrow> system \<Rightarrow> system" where
  "click_new_scan widgets s = (if new_scan_shown s then newScan widgets s else s)"

text \<open>The states the page can be in: from the first render, by user events (the file
  input, the Analyze button, New Scan, the language toggle of App lines 40 and 46) and by
  the settling of requests in flight, with any outcome.\<close>

inductive reachable :: "string option \<Rightarrow> (jsval \<Rightarrow> bool) \<Rightarrow> system \<Rightarrow> bool"
  for env :: "string option" and widgets :: "jsval \<Rightarrow> bool" where
  reach_initial: "reachable env widgets initial"
| reach_file: "reachable env widgets s \<Longrightarrow> reachable env widgets (handleFileChange chosen s)"
| reach_analyze: "reachable env widgets s \<Longrightarrow> reachable env widgets (click_analyze env s)"
| reach_settle: "reachable env widgets s \<Longrightarrow> reachable env widgets (settle widgets i outcome s)"
| reach_new_scan: "reachable env widgets s \<Longrightarrow> reachable env widgets (click_new_scan widgets s)"
| reach_lang_en: "reachable env widgets s \<Longrightarrow> reachable env widgets (setLang ''en'' s)"
| reach_lang_hi: "reachable env widgets s \<Longrightarrow> reachable env widgets (setLang ''hi'' s)"

text \<open>The idle page: the upload view with nothing chosen, nothing held and nothing
  in flight.\<close>

definition idle :: "system \<Rightarrow> bool" where
  "idle s = (\<not> crashed s \<and> result s = Null \<and> \<not> loading s \<and> pending s = [] \<and>
     (case mounted s of None \<Rightarrow> False | Some u \<Rightarrow> u_file u = None \<and> \<not> u_loading u))"

text \<open>What holds of every state the page reaches: the uploader is mounted exactly when
  the page has not crashed and holds no result, and either nothing is in flight and
  nothing is loading, or one request is in flight, made by the mounted uploader, and both
  loading flags are set.\<close>

definition consistent :: "system \<Rightarrow> bool" where
  "consistent s =
     (((crashed s \<or> truthy (result s)) \<longleftrightarrow> mounted s = None) \<and>
      ((pending s = [] \<and> \<not> loading s \<and> \<not> spinner_shown s) \<or>
       (\<exists>u req. mounted s = Some u \<and> u_loading u \<and> loading s \<and>
                 pending s = [(u_id u, req)])))"



section \<open>Concrete scenarios\<close>

definition statement_csv :: jsfile where
  "statement_csv = \<lparr>file_name = ''statement.csv'', file_bytes = [1, 2, 3]\<rparr>"

definition no_effects :: effects where
  "no_effects = \<lparr>posts = [], console = [], alerts = []\<rparr>"

text \<open>A network that settles every request in the same way.\<close>

definition answering :: "axios_error + response \<Rightarrow> http_request \<Rightarrow> axios_error + response" where
  "answering outcome req = outcome"

definition full_metrics :: "(string \<times> jsval) list" where
  "full_metrics =
     [(''total_revenue'', Num (Fin 500000)), (''net_cashflow'', Num (Fin 120000)),
      (''total_expenses'', Num (Fin 380000)), (''avg_transaction'', Num (Fin 2500))]"

definition full_body :: jsval where
  "full_body = Obj
     [(''credit_readiness'', Obj [(''score'', Num (Fin 72)), (''grade'', Str ''B'')]),
      (''financial_summary'', Obj [(''metrics'', Obj full_metrics)]),
      (''projections'', Arr [Obj [(''month'', Str ''Jan''),
                                  (''projected_revenue'', Num (Fin 510000)),
                                  (''projected_net_cashflow'', Num (Fin 125000))]]),
      (''ai_report'', Str ''Stable growth trend.'')]"

definition grade_only :: "(string \<times> jsval) list" where
  "grade_only = [(''grade'', Str ''B'')]"

definition scoreless_body :: jsval where
  "scoreless_body = Obj [(''credit_readiness'', Obj grade_only)]"

text \<open>A runtime whose libraries render whatever they are given.\<close>

definition every_widget_renders :: "jsval \<Rightarrow> bool" where
  "every_widget_renders r = True"

definition file_chosen :: system where
  "file_chosen = handleFileChange (Some statement_csv) initial"

definition submitting :: system where
  "submitting = click_analyze None file_chosen"

definition after_500 :: system where
  "after_500 = settle every_widget_renders 0 (Inl (HttpStatus 500 Null)) submitting"

definition after_full_body :: system where
  "after_full_body =
     settle every_widget_renders 0 (Inr \<lparr>status = 200, data = full_body\<rparr>) submitting"

definition after_null_body :: system where
  "after_null_body =
     settle every_widget_renders 0 (Inr \<lparr>status = 200, data = Null\<rparr>) submitting"

definition after_scoreless_body :: system where
  "after_scoreless_body =
     settle every_widget_renders 0 (Inr \<lparr>status = 200, data = scoreless_body\<rparr>) submitting"



section \<open>Facts about the workflow's steps\<close>

text \<open>Every step keeps the page consistent.\<close>

lemma consistent_initial: "consistent initial"
  by (simp add: consistent_def initial_def mount_uploader_def spinner_shown_def)

lemma consistent_file: "consistent s \<Longrightarrow> consistent (handleFileChange chosen s)"
  by (auto simp: consistent_def handleFileChange_def spinner_shown_def split: option.splits)

lemma consistent_lang: "consistent s \<Longrightarrow> consistent (setLang l s)"
  by (auto simp: consistent_def setLang_def spinner_shown_def split: option.splits)

lemma consistent_new_scan: "consistent s \<Longrightarrow> consistent (click_new_scan widgets s)"
  by (auto simp: consistent_def click_new_scan_def newScan_def new_scan_shown_def setResult_def
      render_App_def mount_uploader_def spinner_shown_def split: option.splits)

lemma consistent_analyze: "consistent s \<Longrightarrow> consistent (click_analyze env s)"
  by (auto simp: consistent_def click_analyze_def analyze_button_shown_def handleUpload_begin_def
      handleAnalysis_begin_def uploadAndAnalyze_send_def setLoading_def Let_def
      spinner_shown_def split: option.splits)

lemma consistent_settle: "consistent s \<Longrightarrow> consistent (settle widgets i outcome s)"
  by (auto simp: consistent_def settle_def handleAnalysis_settle_def uploadAndAnalyze_settle_def
      handleUpload_settle_def uploader_setLoading_def render_App_def mount_uploader_def
      setResult_def setLoading_def Let_def spinner_shown_def
      split: option.splits sum.splits)

lemma reachable_consistent: "reachable env widgets s \<Longrightarrow> consistent s"
  by (induction rule: reachable.induct)
     (simp_all add: consistent_initial consistent_file consistent_lang consistent_new_scan
        consistent_analyze consistent_settle)

text \<open>The state behind a shown Analyze button, and the fields after each step.\<close>

lemma analyze_button_shape:
  assumes "consistent s" and "analyze_button_shown s"
  obtains u f where "mounted s = Some u" "u_file u = Some f" "\<not> u_loading u"
    "\<not> truthy (result s)" "pending s = []" "\<not> loading s" "\<not> crashed s"
  using assms
  by (auto simp: consistent_def analyze_button_shown_def spinner_shown_def split: option.splits)

lemma click_analyze_fields:
  assumes "mounted s = Some u" "u_file u = Some f" "\<not> u_loading u" "\<not> crashed s"
  shows "mounted (click_analyze env s) = Some (u\<lparr>u_loading := True\<rparr>)"
    and "\<not> crashed (click_analyze env s)"
    and "loading (click_analyze env s)"
    and "result (click_analyze env s) = result s"
    and "lang (click_analyze env s) = lang s"
    and "next_id (click_analyze env s) = next_id s"
    and "pending (click_analyze env s) =
           pending s @ [(u_id u, analysis_request env f (Some ''Retail'') (Some (lang s)))]"
    and "fx (click_analyze env s) =
           (fx s)\<lparr>posts := posts (fx s) @ [analysis_request env f (Some ''Retail'') (Some (lang s))]\<rparr>"
  using assms
  by (simp_all add: click_analyze_def analyze_button_shown_def handleUpload_begin_def
      handleAnalysis_begin_def uploadAndAnalyze_send_def setLoading_def Let_def)

lemma settle_failure_fields:
  assumes "mounted s = Some u" "u_loading u" "\<not> truthy (result s)" "pending s = [(u_id u, req)]"
    "\<not> crashed s"
  shows "mounted (settle widgets 0 (Inl e) s) = Some (u\<lparr>u_loading := False\<rparr>)"
    and "\<not> loading (settle widgets 0 (Inl e) s)"
    and "result (settle widgets 0 (Inl e) s) = result s"
    and "lang (settle widgets 0 (Inl e) s) = lang s"
    and "pending (settle widgets 0 (Inl e) s) = []"
    and "\<not> crashed (settle widgets 0 (Inl e) s)"
    and "fx (settle widgets 0 (Inl e) s) =
           (fx s)\<lparr>console := console (fx s) @ [(''API Error:'', e)],
                   alerts := alerts (fx s) @ [''Error connecting to backend. See console.'']\<rparr>"
  using assms
  by (simp_all add: settle_def handleAnalysis_settle_def uploadAndAnalyze_settle_def
      handleUpload_settle_def uploader_setLoading_def render_App_def mount_uploader_def
      setLoading_def Let_def)

lemma settle_success_fields:
  assumes "mounted s = Some u" "u_loading u" "pending s = [(u_id u, req)]" "\<not> crashed s"
  shows "mounted (settle widgets 0 (Inr r) s) =
           (if truthy (data r) then None else Some (u\<lparr>u_loading := False\<rparr>))"
    and "crashed (settle widgets 0 (Inr r) s) \<longleftrightarrow>
           truthy (data r) \<and> \<not> result_view_renders widgets (data r)"
    and "\<not> loading (settle widgets 0 (Inr r) s)"
    and "result (settle widgets 0 (Inr r) s) = data r"
    and "lang (settle widgets 0 (Inr r) s) = lang s"
    and "pending (settle widgets 0 (Inr r) s) = []"
    and "fx (settle widgets 0 (Inr r) s) = fx s"
  using assms
  by (simp_all add: settle_def handleAnalysis_settle_def uploadAndAnalyze_settle_def
      handleUpload_settle_def uploader_setLoading_def render_App_def mount_uploader_def
      setResult_def setLoading_def Let_def)

text \<open>A body that is truthy and renders.\<close>

lemma result_view_renders_truthy: "result_view_renders widgets r \<Longrightarrow> truthy r"
  by (cases r) (simp_all add: result_view_renders_def result_view_props_def js_member_def)

text \<open>Nothing happens on a page that has crashed.\<close>

lemma crashed_page_is_final:
  assumes "consistent s" and "crashed s"
  shows "handleFileChange chosen s = s" and "click_analyze env s = s"
    and "click_new_scan widgets s = s" and "setLang l s = s"
    and "settle widgets i outcome s = s"
  using assms
  by (auto simp: consistent_def handleFileChange_def click_analyze_def analyze_button_shown_def
      click_new_scan_def new_scan_shown_def setLang_def settle_def spinner_shown_def)

section \<open>The analysis client: what it sends and what it returns\<close>

text \<open>C2: every call hands exactly one request to axios: a POST to the fixed path
  \<^verbatim>\<open>/analysis/run\<close> under the base URL taken from the environment when the module was
  loaded, sent as a multipart form with exactly the fields file, business_type and
  language, in that order; an omitted business type is "Retail" and an omitted language
  is "en". This holds however the network settles the request.\<close>

theorem uploadAndAnalyze_single_post:
  "posts (snd (uploadAndAnalyze env net file businessType language w)) =
     posts w @ [analysis_request env file businessType language]
   \<and> http_method (analysis_request env file businessType language) = ''POST''
   \<and> url (analysis_request env file businessType language) = API_BASE_URL env @ ''/analysis/run''
   \<and> headers (analysis_request env file businessType language) =
       [(''Content-Type'', ''multipart/form-data'')]
   \<and> map fst (form (analysis_request env file businessType language)) =
       [''file'', ''business_type'', ''language'']
   \<and> map_of (form (analysis_request env file businessType language)) ''file'' =
       Some (FileField file)
   \<and> form (analysis_request env file None None) =
       [(''file'', FileField file), (''business_type'', TextField ''Retail''),
        (''language'', TextField ''en'')]
   \<and> form (analysis_request env file (Some b) (Some l)) =
       [(''file'', FileField file), (''business_type'', TextField b),
        (''language'', TextField l)]"
  by (simp add: uploadAndAnalyze_def uploadAndAnalyze_send_def uploadAndAnalyze_settle_def
      analysis_request_def Let_def split: sum.splits)

text \<open>C1, as the code has it: the client does not validate. Whenever axios fulfils the
  request, the call returns the body of the response exactly as received, whatever its
  shape, and fails with nothing; so a body without \<^verbatim>\<open>credit_readiness.score\<close> comes
  back as it is, with no score added and no error raised.\<close>

theorem uploadAndAnalyze_returns_body_as_received:
  assumes "net (analysis_request env file businessType language) = Inr resp"
  shows "uploadAndAnalyze env net file businessType language w =
           (Inr (data resp), w\<lparr>posts := posts w @ [analysis_request env file businessType language]\<rparr>)"
  using assms
  by (simp add: uploadAndAnalyze_def uploadAndAnalyze_send_def uploadAndAnalyze_settle_def Let_def)

theorem uploadAndAnalyze_returns_body_as_received_witness:
  "answering (Inr \<lparr>status = 200, data = full_body\<rparr>) (analysis_request None statement_csv None None)
     = Inr \<lparr>status = 200, data = full_body\<rparr>
   \<and> uploadAndAnalyze None (answering (Inr \<lparr>status = 200, data = full_body\<rparr>)) statement_csv
        None None no_effects
     = (Inr full_body, no_effects\<lparr>posts := [analysis_request None statement_csv None None]\<rparr>)"
proof -
  have a: "answering (Inr \<lparr>status = 200, data = full_body\<rparr>)
             (analysis_request None statement_csv None None) = Inr \<lparr>status = 200, data = full_body\<rparr>"
    by (simp add: answering_def)
  from a uploadAndAnalyze_returns_body_as_received
      [of "answering (Inr \<lparr>status = 200, data = full_body\<rparr>)" None statement_csv None None
         "\<lparr>status = 200, data = full_body\<rparr>" no_effects]
  show ?thesis by (simp add: no_effects_def)
qed

text \<open>C1 as stated fails: a 200 response whose body lacks \<^verbatim>\<open>credit_readiness.score\<close>
  is returned to the caller as a success.\<close>

theorem uploadAndAnalyze_scoreless_body_counterexample:
  "fst (uploadAndAnalyze None (answering (Inr \<lparr>status = 200, data = scoreless_body\<rparr>))
          statement_csv None None no_effects) = Inr scoreless_body
   \<and> scoreless_body = Obj [(''credit_readiness'', Obj grade_only)]
   \<and> obj_get grade_only ''score'' = Undefined"
  by (simp add: uploadAndAnalyze_def uploadAndAnalyze_send_def uploadAndAnalyze_settle_def
      Let_def answering_def scoreless_body_def grade_only_def obj_get_def)

text \<open>C3, as the code has it: the client passes on how axios settled. A rejection
  (no response, or a status that axios refuses) is logged to the console and thrown again
  unchanged, so the caller holds the very error axios made and can tell the two kinds
  apart; a fulfilled response is returned as its body. Nothing is swallowed, and nothing
  is validated: there is no third, schema kind of failure.\<close>

theorem uploadAndAnalyze_passes_settlement_on:
  "fst (uploadAndAnalyze env net file businessType language w) =
     (case net (analysis_request env file businessType language) of
        Inl error \<Rightarrow> Inl error
      | Inr resp \<Rightarrow> Inr (data resp))
   \<and> console (snd (uploadAndAnalyze env net file businessType language w)) =
       console w @
       (case net (analysis_request env file businessType language) of
          Inl error \<Rightarrow> [(''API Error:'', error)]
        | Inr resp \<Rightarrow> [])
   \<and> alerts (snd (uploadAndAnalyze env net file businessType language w)) = alerts w"
  by (simp add: uploadAndAnalyze_def uploadAndAnalyze_send_def uploadAndAnalyze_settle_def
      Let_def split: sum.splits)

text \<open>C3 as stated fails: a 200 response whose body is a page of HTML, not an analysis,
  is a success for the caller, with nothing logged.\<close>

theorem uploadAndAnalyze_unvalidated_success_counterexample:
  "uploadAndAnalyze None (answering (Inr \<lparr>status = 200, data = Str ''<html></html>''\<rparr>))
      statement_csv None None no_effects
     = (Inr (Str ''<html></html>''),
        no_effects\<lparr>posts := [analysis_request None statement_csv None None]\<rparr>)"
  by (simp add: uploadAndAnalyze_def uploadAndAnalyze_send_def uploadAndAnalyze_settle_def
      Let_def answering_def no_effects_def)

section \<open>The concrete scenarios, step by step\<close>

lemma reachable_file_chosen: "reachable env widgets file_chosen"
  unfolding file_chosen_def by (rule reach_file [OF reach_initial])

lemma reachable_submitting: "reachable None widgets submitting"
  unfolding submitting_def by (rule reach_analyze [OF reachable_file_chosen])

lemma reachable_after_full_body: "reachable None every_widget_renders after_full_body"
  unfolding after_full_body_def by (rule reach_settle [OF reachable_submitting])

lemma file_chosen_eq:
  "file_chosen =
     \<lparr>result = Null, loading = False, lang = ''en'',
      mounted = Some \<lparr>u_id = 0, u_loading = False, u_file = Some statement_csv\<rparr>,
      next_id = Suc 0, pending = [], crashed = False, fx = no_effects\<rparr>"
  by (simp add: file_chosen_def initial_def mount_uploader_def handleFileChange_def no_effects_def)

lemma submitting_eq:
  "submitting =
     \<lparr>result = Null, loading = True, lang = ''en'',
      mounted = Some \<lparr>u_id = 0, u_loading = True, u_file = Some statement_csv\<rparr>,
      next_id = Suc 0,
      pending = [(0, analysis_request None statement_csv (Some ''Retail'') (Some ''en''))],
      crashed = False,
      fx = no_effects\<lparr>posts := [analysis_request None statement_csv (Some ''Retail'') (Some ''en'')]\<rparr>\<rparr>"
  by (simp add: submitting_def file_chosen_eq click_analyze_def analyze_button_shown_def
      handleUpload_begin_def handleAnalysis_begin_def uploadAndAnalyze_send_def setLoading_def
      no_effects_def Let_def)

lemma after_500_eq:
  "after_500 =
     \<lparr>result = Null, loading = False, lang = ''en'',
      mounted = Some \<lparr>u_id = 0, u_loading = False, u_file = Some statement_csv\<rparr>,
      next_id = Suc 0, pending = [], crashed = False,
      fx = \<lparr>posts = [analysis_request None statement_csv (Some ''Retail'') (Some ''en'')],
            console = [(''API Error:'', HttpStatus 500 Null)],
            alerts = [''Error connecting to backend. See console.'']\<rparr>\<rparr>"
  by (simp add: after_500_def submitting_eq settle_def handleAnalysis_settle_def
      uploadAndAnalyze_settle_def handleUpload_settle_def uploader_setLoading_def
      render_App_def mount_uploader_def setLoading_def no_effects_def Let_def)

lemma truthy_full_body: "truthy full_body"
  by (simp add: full_body_def)

lemma full_body_renders: "result_view_renders every_widget_renders full_body"
  by (simp add: result_view_renders_def result_view_props_def js_member_def obj_get_def
      full_body_def every_widget_renders_def)

lemma scoreless_body_throws:
  "truthy scoreless_body \<and> \<not> result_view_renders widgets scoreless_body"
  by (simp add: result_view_renders_def result_view_props_def js_member_def obj_get_def
      scoreless_body_def)

lemma after_full_body_eq:
  "after_full_body =
     \<lparr>result = full_body, loading = False, lang = ''en'', mounted = None,
      next_id = Suc 0, pending = [], crashed = False,
      fx = no_effects\<lparr>posts := [analysis_request None statement_csv (Some ''Retail'') (Some ''en'')]\<rparr>\<rparr>"
  by (simp add: after_full_body_def submitting_eq settle_def handleAnalysis_settle_def
      uploadAndAnalyze_settle_def handleUpload_settle_def uploader_setLoading_def
      render_App_def setResult_def setLoading_def truthy_full_body full_body_renders
      no_effects_def Let_def)

lemma after_null_body_eq:
  "after_null_body =
     \<lparr>result = Null, loading = False, lang = ''en'',
      mounted = Some \<lparr>u_id = 0, u_loading = False, u_file = Some statement_csv\<rparr>,
      next_id = Suc 0, pending = [], crashed = False,
      fx = no_effects\<lparr>posts := [analysis_request None statement_csv (Some ''Retail'') (Some ''en'')]\<rparr>\<rparr>"
  by (simp add: after_null_body_def submitting_eq settle_def handleAnalysis_settle_def
      uploadAndAnalyze_settle_def handleUpload_settle_def uploader_setLoading_def
      render_App_def mount_uploader_def setResult_def setLoading_def no_effects_def Let_def)

text \<open>A 200 answer whose body has no \<^verbatim>\<open>financial_summary\<close>: the render of the result
  view throws at App line 78, and the page is blank from then on, with no New Scan
  button.\<close>

lemma after_scoreless_body_crashed:
  "crashed after_scoreless_body \<and> \<not> result_view_selected after_scoreless_body
   \<and> \<not> new_scan_shown after_scoreless_body \<and> \<not> analyze_button_shown after_scoreless_body
   \<and> click_new_scan every_widget_renders after_scoreless_body = after_scoreless_body"
  by (simp add: after_scoreless_body_def submitting_eq settle_def handleAnalysis_settle_def
      uploadAndAnalyze_settle_def handleUpload_settle_def uploader_setLoading_def
      render_App_def setResult_def setLoading_def scoreless_body_throws
      result_view_selected_def new_scan_shown_def analyze_button_shown_def click_new_scan_def
      Let_def)

section \<open>The upload workflow: submitting, failing, starting again\<close>

text \<open>C4, as the code has it: take any reachable page that shows the Analyze button (a file
  is chosen, nothing is loading) and any way the request settles. After the click and
  the settling, nothing is in flight and no spinner is shown, so the page never stays in
  Submitting, and on a page that is still rendered both loading flags are cleared. If the
  client call throws, the failure alert is raised, the result slot is untouched and the
  page stays on the upload view (Failed). If it returns a body from which the result view
  renders, the result slot holds that body, the result view is shown and no alert is
  raised (Succeeded).\<close>

theorem submit_settles_and_clears_loading:
  assumes "reachable env widgets s" and "analyze_button_shown s"
    and "s' = settle widgets 0 outcome (click_analyze env s)"
  shows "\<not> spinner_shown s' \<and> pending s' = [] \<and> (\<not> crashed s' \<longrightarrow> \<not> loading s')
    \<and> (\<forall>e. outcome = Inl e \<longrightarrow>
          \<not> crashed s'
          \<and> alerts (fx s') = alerts (fx s) @ [''Error connecting to backend. See console.'']
          \<and> result s' = result s \<and> \<not> result_view_selected s')
    \<and> (\<forall>r. outcome = Inr r \<and> result_view_renders widgets (data r) \<longrightarrow>
          \<not> crashed s'
          \<and> result s' = data r \<and> result_view_selected s' \<and> alerts (fx s') = alerts (fx s))"
proof -
  from assms(1) have c: "consistent s" by (rule reachable_consistent)
  from c assms(2) obtain u f where s: "mounted s = Some u" "u_file u = Some f" "\<not> u_loading u"
    "\<not> truthy (result s)" "pending s = []" "\<not> loading s" "\<not> crashed s"
    by (rule analyze_button_shape)
  let ?t = "click_analyze env s"
  let ?req = "analysis_request env f (Some ''Retail'') (Some (lang s))"
  have t: "mounted ?t = Some (u\<lparr>u_loading := True\<rparr>)" "u_loading (u\<lparr>u_loading := True\<rparr>)"
    "\<not> truthy (result ?t)" "pending ?t = [(u_id (u\<lparr>u_loading := True\<rparr>), ?req)]"
    "\<not> crashed ?t"
    "fx ?t = (fx s)\<lparr>posts := posts (fx s) @ [?req]\<rparr>" "result ?t = result s"
    using s click_analyze_fields [OF s(1-3,7), of env] by simp_all
  show ?thesis
  proof (cases outcome)
    case (Inl e)
    with assms(3) have s': "s' = settle widgets 0 (Inl e) ?t" by simp
    show ?thesis
      using Inl s t settle_failure_fields [OF t(1-5), of widgets e]
      by (simp add: s' spinner_shown_def result_view_selected_def)
  next
    case (Inr r)
    with assms(3) have s': "s' = settle widgets 0 (Inr r) ?t" by simp
    show ?thesis
      using Inr s t settle_success_fields [OF t(1,2,4,5), of widgets r]
        result_view_renders_truthy [of widgets "data r"]
      by (auto simp add: s' spinner_shown_def result_view_selected_def)
  qed
qed

theorem submit_settles_and_clears_loading_witness:
  "reachable None every_widget_renders file_chosen \<and> analyze_button_shown file_chosen
   \<and> \<not> spinner_shown after_500 \<and> \<not> loading after_500 \<and> pending after_500 = []
   \<and> alerts (fx after_500) = [''Error connecting to backend. See console.'']
   \<and> \<not> result_view_selected after_500
   \<and> result_view_renders every_widget_renders full_body
   \<and> \<not> spinner_shown after_full_body \<and> \<not> loading after_full_body
   \<and> result after_full_body = full_body \<and> result_view_selected after_full_body
   \<and> alerts (fx after_full_body) = []"
proof -
  have r: "reachable None every_widget_renders file_chosen" by (rule reachable_file_chosen)
  have b: "analyze_button_shown file_chosen"
    by (simp add: file_chosen_eq analyze_button_shown_def)
  have f: "after_500 =
      settle every_widget_renders 0 (Inl (HttpStatus 500 Null)) (click_analyze None file_chosen)"
    by (simp add: after_500_def submitting_def)
  have g: "after_full_body =
      settle every_widget_renders 0 (Inr \<lparr>status = 200, data = full_body\<rparr>)
        (click_analyze None file_chosen)"
    by (simp add: after_full_body_def submitting_def)
  have a: "alerts (fx file_chosen) = []"
    by (simp add: file_chosen_eq no_effects_def)
  from submit_settles_and_clears_loading [OF r b f] submit_settles_and_clears_loading [OF r b g]
    r b a full_body_renders
  show ?thesis by simp
qed

text \<open>C4 as stated fails: when the server answers 200 with the body \<^verbatim>\<open>null\<close>, the
  client call returns normally, no alert is raised, and \<^verbatim>\<open>!result\<close> still holds, so
  the page is back on the upload view with the Analyze button: neither Succeeded nor
  Failed.\<close>

theorem submit_null_body_counterexample:
  "analyze_button_shown file_chosen
   \<and> after_null_body =
       settle every_widget_renders 0 (Inr \<lparr>status = 200, data = Null\<rparr>)
         (click_analyze None file_chosen)
   \<and> \<not> result_view_selected after_null_body
   \<and> \<not> crashed after_null_body
   \<and> alerts (fx after_null_body) = []
   \<and> console (fx after_null_body) = []
   \<and> result after_null_body = result file_chosen
   \<and> mounted after_null_body = mounted file_chosen
   \<and> analyze_button_shown after_null_body"
proof -
  have a: "after_null_body =
      settle every_widget_renders 0 (Inr \<lparr>status = 200, data = Null\<rparr>)
        (click_analyze None file_chosen)"
    by (simp add: after_null_body_def submitting_def)
  have b: "analyze_button_shown file_chosen \<and> \<not> result_view_selected after_null_body
     \<and> \<not> crashed after_null_body
     \<and> alerts (fx after_null_body) = [] \<and> console (fx after_null_body) = []
     \<and> result after_null_body = result file_chosen
     \<and> mounted after_null_body = mounted file_chosen
     \<and> analyze_button_shown after_null_body"
    by (simp add: after_null_body_eq file_chosen_eq analyze_button_shown_def
        result_view_selected_def no_effects_def)
  from a b show ?thesis by blast
qed

text \<open>C5, as the code has it: on every failure of the client call the page raises the
  fixed alert "Error connecting to backend. See console." and logs the error; it keeps
  no description of the failure in its state, whose cells are all as they were before the
  click. The chosen file is not cleared: the Analyze button is shown again, and a further
  click sends the same file again.\<close>

theorem failure_alerts_and_keeps_the_file:
  assumes "reachable env widgets s" and "analyze_button_shown s"
    and "s' = settle widgets 0 (Inl e) (click_analyze env s)"
  shows "alerts (fx s') = alerts (fx s) @ [''Error connecting to backend. See console.'']
    \<and> console (fx s') = console (fx s) @ [(''API Error:'', e)]
    \<and> result s' = result s \<and> loading s' = loading s \<and> lang s' = lang s
    \<and> mounted s' = mounted s
    \<and> selected_file s' = selected_file s
    \<and> analyze_button_shown s'
    \<and> (\<exists>f. selected_file s' = Some f \<and>
          posts (fx (click_analyze env s')) =
            posts (fx s') @ [analysis_request env f (Some ''Retail'') (Some (lang s'))])"
proof -
  from assms(1) have c: "consistent s" by (rule reachable_consistent)
  from c assms(2) obtain u f where s: "mounted s = Some u" "u_file u = Some f" "\<not> u_loading u"
    "\<not> truthy (result s)" "pending s = []" "\<not> loading s" "\<not> crashed s"
    by (rule analyze_button_shape)
  let ?t = "click_analyze env s"
  let ?req = "analysis_request env f (Some ''Retail'') (Some (lang s))"
  have t: "mounted ?t = Some (u\<lparr>u_loading := True\<rparr>)" "u_loading (u\<lparr>u_loading := True\<rparr>)"
    "\<not> truthy (result ?t)" "pending ?t = [(u_id (u\<lparr>u_loading := True\<rparr>), ?req)]"
    "\<not> crashed ?t"
    "fx ?t = (fx s)\<lparr>posts := posts (fx s) @ [?req]\<rparr>" "result ?t = result s"
    "lang ?t = lang s"
    using s click_analyze_fields [OF s(1-3,7), of env] by simp_all
  have m: "mounted s' = Some u"
    using s(3) settle_failure_fields(1) [OF t(1-5), of widgets e] assms(3) by simp
  have fields: "\<not> loading s'" "result s' = result s" "lang s' = lang s" "\<not> crashed s'"
    "fx s' = (fx ?t)\<lparr>console := console (fx ?t) @ [(''API Error:'', e)],
                       alerts := alerts (fx ?t) @ [''Error connecting to backend. See console.'']\<rparr>"
    using settle_failure_fields [OF t(1-5), of widgets e] t assms(3) by simp_all
  have again: "posts (fx (click_analyze env s')) =
      posts (fx s') @ [analysis_request env f (Some ''Retail'') (Some (lang s'))]"
    using click_analyze_fields(8) [OF m s(2,3) fields(4), of env] by simp
  show ?thesis
    using m s fields t again
    by (simp add: selected_file_def analyze_button_shown_def)
qed

theorem failure_alerts_and_keeps_the_file_witness:
  "reachable None every_widget_renders file_chosen \<and> analyze_button_shown file_chosen
   \<and> alerts (fx after_500) = [''Error connecting to backend. See console.'']
   \<and> selected_file after_500 = Some statement_csv
   \<and> analyze_button_shown after_500
   \<and> posts (fx (click_analyze None after_500)) =
       [analysis_request None statement_csv (Some ''Retail'') (Some ''en''),
        analysis_request None statement_csv (Some ''Retail'') (Some ''en'')]"
proof -
  have r: "reachable None every_widget_renders file_chosen" by (rule reachable_file_chosen)
  have b: "analyze_button_shown file_chosen"
    by (simp add: file_chosen_eq analyze_button_shown_def)
  have f: "after_500 =
      settle every_widget_renders 0 (Inl (HttpStatus 500 Null)) (click_analyze None file_chosen)"
    by (simp add: after_500_def submitting_def)
  have a: "alerts (fx file_chosen) = []" "selected_file file_chosen = Some statement_csv"
    "lang file_chosen = ''en''"
    by (simp_all add: file_chosen_eq no_effects_def selected_file_def)
  have p: "posts (fx after_500) = [analysis_request None statement_csv (Some ''Retail'') (Some ''en'')]"
    by (simp add: after_500_eq)
  from failure_alerts_and_keeps_the_file [OF r b f] r b a p
  show ?thesis by auto
qed

text \<open>C5 as stated fails: after a 500 answer every state cell of \<^verbatim>\<open>App\<close> and of the
  uploader holds what it held before the click; the result slot is null and no cell holds
  an error description. There is no Failed state apart from the file-selected page.\<close>

theorem failure_stores_nothing_counterexample:
  "after_500 =
     settle every_widget_renders 0 (Inl (HttpStatus 500 Null)) (click_analyze None file_chosen)
   \<and> result after_500 = result file_chosen
   \<and> loading after_500 = loading file_chosen
   \<and> lang after_500 = lang file_chosen
   \<and> mounted after_500 = mounted file_chosen
   \<and> result after_500 = Null"
proof -
  have a: "after_500 =
      settle every_widget_renders 0 (Inl (HttpStatus 500 Null)) (click_analyze None file_chosen)"
    by (simp add: after_500_def submitting_def)
  have b: "result after_500 = result file_chosen \<and> loading after_500 = loading file_chosen
     \<and> lang after_500 = lang file_chosen \<and> mounted after_500 = mounted file_chosen
     \<and> result after_500 = Null"
    by (simp add: after_500_eq file_chosen_eq)
  from a b show ?thesis by blast
qed

text \<open>C6, as the code has it: from every reachable page that shows the result view
  (Succeeded: a result is held and its view has rendered), New Scan yields the idle page:
  the result slot is null, a fresh uploader is mounted with no file chosen and no loading
  flag, and nothing is in flight. New Scan is rendered only while a result is shown.\<close>

theorem new_scan_from_result_view_is_idle:
  assumes "reachable env widgets s" and "result_view_selected s"
  shows "new_scan_shown s
    \<and> idle (click_new_scan widgets s) \<and> selected_file (click_new_scan widgets s) = None
    \<and> result (click_new_scan widgets s) = Null
    \<and> \<not> result_view_selected (click_new_scan widgets s)
    \<and> fx (click_new_scan widgets s) = fx s"
proof -
  from assms(1) have c: "consistent s" by (rule reachable_consistent)
  with assms(2) have s: "mounted s = None" "pending s = []" "\<not> loading s" "truthy (result s)"
    "\<not> crashed s"
    by (auto simp: consistent_def result_view_selected_def)
  then show ?thesis
    by (simp add: click_new_scan_def new_scan_shown_def newScan_def render_App_def
        mount_uploader_def setResult_def idle_def selected_file_def result_view_selected_def)
qed

theorem new_scan_from_result_view_is_idle_witness:
  "reachable None every_widget_renders after_full_body \<and> result_view_selected after_full_body
   \<and> idle (click_new_scan every_widget_renders after_full_body)
   \<and> selected_file (click_new_scan every_widget_renders after_full_body) = None
   \<and> result (click_new_scan every_widget_renders after_full_body) = Null"
proof -
  have r: "reachable None every_widget_renders after_full_body"
    by (rule reachable_after_full_body)
  have v: "result_view_selected after_full_body"
    by (simp add: after_full_body_eq result_view_selected_def truthy_full_body)
  from new_scan_from_result_view_is_idle [OF r v] r v show ?thesis by simp
qed

text \<open>C6 as stated fails: after a failed submission the New Scan button is not rendered,
  and its handler, were it run, would leave the chosen file in place: the page is not
  idle.\<close>

theorem new_scan_after_failure_counterexample:
  "after_500 =
     settle every_widget_renders 0 (Inl (HttpStatus 500 Null)) (click_analyze None file_chosen)
   \<and> \<not> new_scan_shown after_500
   \<and> click_new_scan every_widget_renders after_500 = after_500
   \<and> selected_file (newScan every_widget_renders after_500) = Some statement_csv
   \<and> \<not> idle (newScan every_widget_renders after_500)
   \<and> \<not> idle (click_new_scan every_widget_renders after_500)"
proof -
  have a: "after_500 =
      settle every_widget_renders 0 (Inl (HttpStatus 500 Null)) (click_analyze None file_chosen)"
    by (simp add: after_500_def submitting_def)
  have n: "\<not> new_scan_shown after_500"
    by (simp add: after_500_eq new_scan_shown_def)
  then have c: "click_new_scan every_widget_renders after_500 = after_500"
    by (simp add: click_new_scan_def)
  have b: "selected_file (newScan every_widget_renders after_500) = Some statement_csv
     \<and> \<not> idle (newScan every_widget_renders after_500) \<and> \<not> idle after_500"
    by (simp add: after_500_eq newScan_def render_App_def mount_uploader_def setResult_def
        selected_file_def idle_def)
  from a n c b show ?thesis by simp
qed

text \<open>C7: in every reachable state at most one request is in flight; while one is, the
  spinner is shown, and while the spinner is shown the Analyze button is not rendered, so
  a further click changes nothing and posts nothing.\<close>

theorem one_request_in_flight:
  assumes "reachable env widgets s"
  shows "length (pending s) \<le> 1
    \<and> (pending s \<noteq> [] \<longrightarrow> spinner_shown s)
    \<and> (spinner_shown s \<longrightarrow>
          \<not> analyze_button_shown s \<and> click_analyze env s = s
          \<and> posts (fx (click_analyze env s)) = posts (fx s))"
proof -
  from assms have "consistent s" by (rule reachable_consistent)
  then show ?thesis
    by (auto simp: consistent_def spinner_shown_def analyze_button_shown_def click_analyze_def
        split: option.splits)
qed

theorem one_request_in_flight_witness:
  "reachable None every_widget_renders submitting \<and> spinner_shown submitting
   \<and> pending submitting \<noteq> []
   \<and> length (pending submitting) \<le> 1
   \<and> click_analyze None submitting = submitting
   \<and> posts (fx (click_analyze None submitting)) = posts (fx submitting)"
proof -
  have r: "reachable None every_widget_renders submitting" by (rule reachable_submitting)
  have p: "spinner_shown submitting" "pending submitting \<noteq> []"
    by (simp_all add: submitting_eq spinner_shown_def)
  from one_request_in_flight [OF r] r p show ?thesis by simp
qed

text \<open>The guard against a second request is the render condition of the button alone:
  \<^verbatim>\<open>handleUpload\<close> itself does not look at the loading flag.\<close>

lemma handleUpload_begin_ignores_loading:
  "posts (fx (handleUpload_begin None submitting)) =
     posts (fx submitting) @ [analysis_request None statement_csv (Some ''Retail'') (Some ''en'')]"
  by (simp add: submitting_eq handleUpload_begin_def handleAnalysis_begin_def
      uploadAndAnalyze_send_def setLoading_def Let_def)

text \<open>C8: with no file chosen, the upload action does nothing: \<^verbatim>\<open>handleUpload\<close>
  returns at once and the Analyze button is not rendered, so the state is unchanged, no
  request is built and none is sent.\<close>

theorem no_file_no_request:
  assumes "selected_file s = None"
  shows "handleUpload_begin env s = s \<and> click_analyze env s = s
    \<and> \<not> analyze_button_shown s
    \<and> posts (fx (handleUpload_begin env s)) = posts (fx s)
    \<and> pending (handleUpload_begin env s) = pending s"
  using assms
  by (auto simp: selected_file_def handleUpload_begin_def click_analyze_def
      analyze_button_shown_def split: option.splits)

theorem no_file_no_request_witness:
  "selected_file initial = None \<and> handleUpload_begin None initial = initial
   \<and> click_analyze None initial = initial \<and> posts (fx (handleUpload_begin None initial)) = []"
proof -
  have n: "selected_file initial = None"
    by (simp add: initial_def mount_uploader_def selected_file_def)
  have p: "posts (fx initial) = []"
    by (simp add: initial_def mount_uploader_def)
  from no_file_no_request [OF n, of None] n p show ?thesis by simp
qed

section \<open>The metric cards\<close>






end
